theory Spec2Isabelle
  imports Complex_Main
begin

section \<open>The drag controller of useDraggable\<close>

text \<open>
  A shallow embedding of \<^verbatim>\<open>packages/core/src/hooks/elements/useDraggable/index.tsx\<close>.

  Modelling decisions.
  \<^item> A JavaScript \<^verbatim>\<open>number\<close> is a \<^typ>\<open>real\<close>: rounding, infinities and NaN are outside
    the model.
  \<^item> A DOM node is its identity (a \<^typ>\<open>nat\<close>); \<^verbatim>\<open>===\<close> on nodes is equality of identities,
    and \<^verbatim>\<open>null\<close> is \<open>None\<close>.
  \<^item> The hook instance is the record \<open>hook\<close>: the \<^verbatim>\<open>useState\<close> cell \<open>draggableState\<close> and
    the two \<^verbatim>\<open>useRef\<close> cells \<open>elementRef\<close> and \<open>startPosRef\<close>. The component re-renders
    (and the listener effect re-subscribes) between two events, so each handler closes over
    the state left by the previous event; \<^verbatim>\<open>resultRef.current\<close> then mirrors
    \<open>draggableState\<close>.
  \<^item> A handler returns an \<open>outcome\<close>: the instance afterwards, the callbacks it invoked
    (in order, with their arguments), whether it called \<^verbatim>\<open>event.preventDefault()\<close>, and the
    exception that escaped it, if any. A state update queued with \<^verbatim>\<open>setDraggableState\<close>
    before an exception escapes is still applied.
  \<^item> A caller-supplied callback is a function that either returns or throws.
\<close>

subsection \<open>Data\<close>

type_synonym node = nat

text \<open>The object \<^verbatim>\<open>{ x: number; y: number }\<close>.\<close>

record point =
  pos_x :: real
  pos_y :: real

text \<open>\<^verbatim>\<open>DraggableBounds\<close> (type.ts).\<close>

record DraggableBounds =
  bounds_left :: real
  bounds_top :: real
  bounds_right :: real
  bounds_bottom :: real

datatype DraggableAxis = AxisBoth | AxisX | AxisY

text \<open>\<^verbatim>\<open>DraggableState\<close> (type.ts).\<close>

record DraggableState =
  isDragging :: bool
  position :: point
  delta :: point
  startPosition :: "point option"

text \<open>The part of \<^verbatim>\<open>getBoundingClientRect()\<close> that the hook reads.\<close>

record DOMRect =
  rect_left :: real
  rect_top :: real

text \<open>
  A native event: a mouse event with \<^verbatim>\<open>clientX\<close>, \<^verbatim>\<open>clientY\<close>, or a touch event with
  its list \<^verbatim>\<open>touches\<close> of contact points, each a pair \<^verbatim>\<open>(clientX, clientY)\<close>.
\<close>

datatype event =
  MouseEvent (target: "node option") (clientX: real) (clientY: real)
| TouchEvent (target: "node option") (touches: "(real \<times> real) list")

datatype event_type = mousedown | mousemove | mouseup | touchstart | touchmove | touchend

datatype completion = Returns | Throws

type_synonym callback = "DraggableState \<Rightarrow> event \<Rightarrow> completion"

text \<open>\<^verbatim>\<open>UseDraggableOptions\<close>, after the defaults of the destructuring are filled in.\<close>

record UseDraggableOptions =
  customWindow :: bool
  customDocument :: bool
  axis :: DraggableAxis
  bounds :: "DraggableBounds option"
  disabled :: bool
  onStart :: "callback option"
  onMove :: "callback option"
  onEnd :: "callback option"

record hook =
  draggableState :: DraggableState
  elementRef :: "node option"
  startPosRef :: "point option"

datatype exn = TypeError | CallbackThrown

datatype call =
  OnStart DraggableState event
| OnMove DraggableState event
| is_OnEnd: OnEnd DraggableState event

record outcome =
  hook_after :: hook
  calls :: "call list"
  defaultPrevented :: bool
  thrown :: "exn option"

subsection \<open>Operations\<close>

text \<open>The state of \<^verbatim>\<open>useState\<close> and of the refs at the first render.\<close>

definition initial :: hook where
  "initial =
     \<lparr>draggableState =
        \<lparr>isDragging = False,
         position = \<lparr>pos_x = 0, pos_y = 0\<rparr>,
         delta = \<lparr>pos_x = 0, pos_y = 0\<rparr>,
         startPosition = None\<rparr>,
      elementRef = None,
      startPosRef = None\<rparr>"

text \<open>A handler that returns at once: nothing changes and nothing is called.\<close>

definition unchanged :: "hook \<Rightarrow> outcome" where
  "unchanged h = \<lparr>hook_after = h, calls = [], defaultPrevented = False, thrown = None\<rparr>"

text \<open>
  \<^verbatim>\<open>getCurrentPosition\<close>: for a touch event, \<^verbatim>\<open>event.touches[0]\<close> is \<^verbatim>\<open>undefined\<close> when the
  list is empty, and reading \<^verbatim>\<open>touch.clientX\<close> then throws a TypeError.
\<close>

definition getCurrentPosition :: "event \<Rightarrow> exn + point" where
  "getCurrentPosition ev =
     (case ev of
        TouchEvent tg ts \<Rightarrow>
          (case ts of
             [] \<Rightarrow> Inl TypeError
           | touch # rest \<Rightarrow> Inr \<lparr>pos_x = fst touch, pos_y = snd touch\<rparr>)
      | MouseEvent tg cx cy \<Rightarrow> Inr \<lparr>pos_x = cx, pos_y = cy\<rparr>)"

definition constrainPosition :: "UseDraggableOptions \<Rightarrow> point \<Rightarrow> point" where
  "constrainPosition opts pos =
     (case bounds opts of
        None \<Rightarrow> pos
      | Some b \<Rightarrow>
          \<lparr>pos_x = max (bounds_left b) (min (bounds_right b) (pos_x pos)),
           pos_y = max (bounds_top b) (min (bounds_bottom b) (pos_y pos))\<rparr>)"

definition applyAxisConstraints ::
  "UseDraggableOptions \<Rightarrow> DraggableState \<Rightarrow> point \<Rightarrow> point" where
  "applyAxisConstraints opts st pos =
     (if axis opts = AxisX then \<lparr>pos_x = pos_x pos, pos_y = pos_y (position st)\<rparr>
      else if axis opts = AxisY then \<lparr>pos_x = pos_x (position st), pos_y = pos_y pos\<rparr>
      else pos)"

text \<open>\<^verbatim>\<open>cb?.(newState, event)\<close>: the call made, and the exception it lets escape.\<close>

definition invoke ::
  "callback option \<Rightarrow> (DraggableState \<Rightarrow> event \<Rightarrow> call) \<Rightarrow> DraggableState \<Rightarrow> event
     \<Rightarrow> call list \<times> exn option" where
  "invoke cb tag st ev =
     (case cb of
        None \<Rightarrow> ([], None)
      | Some f \<Rightarrow>
          ([tag st ev], (case f st ev of Returns \<Rightarrow> None | Throws \<Rightarrow> Some CallbackThrown)))"

definition handleDragStart ::
  "UseDraggableOptions \<Rightarrow> (node \<Rightarrow> DOMRect) \<Rightarrow> hook \<Rightarrow> event \<Rightarrow> outcome" where
  "handleDragStart opts layout h ev =
     (if disabled opts then unchanged h
      else
        (case getCurrentPosition ev of
           Inl e \<Rightarrow> \<lparr>hook_after = h, calls = [], defaultPrevented = True, thrown = Some e\<rparr>
         | Inr currentPos \<Rightarrow>
             (case map_option layout (elementRef h) of
                None \<Rightarrow>
                  \<lparr>hook_after = h, calls = [], defaultPrevented = True, thrown = None\<rparr>
              | Some rect \<Rightarrow>
                  (let sp = \<lparr>pos_x = pos_x currentPos - rect_left rect,
                             pos_y = pos_y currentPos - rect_top rect\<rparr>;
                       newState =
                         \<lparr>isDragging = True,
                          position = position (draggableState h),
                          delta = \<lparr>pos_x = 0, pos_y = 0\<rparr>,
                          startPosition = Some sp\<rparr>;
                       r = invoke (onStart opts) OnStart newState ev
                   in \<lparr>hook_after = h\<lparr>draggableState := newState, startPosRef := Some sp\<rparr>,
                       calls = fst r, defaultPrevented = True, thrown = snd r\<rparr>))))"

definition handleDragMove :: "UseDraggableOptions \<Rightarrow> hook \<Rightarrow> event \<Rightarrow> outcome" where
  "handleDragMove opts h ev =
     (if \<not> isDragging (draggableState h) then unchanged h
      else if disabled opts then unchanged h
      else
        (case startPosRef h of
           None \<Rightarrow> unchanged h
         | Some sp \<Rightarrow>
             (case getCurrentPosition ev of
                Inl e \<Rightarrow>
                  \<lparr>hook_after = h, calls = [], defaultPrevented = True, thrown = Some e\<rparr>
              | Inr currentPos \<Rightarrow>
                  (let newPosition = \<lparr>pos_x = pos_x currentPos - pos_x sp,
                                      pos_y = pos_y currentPos - pos_y sp\<rparr>;
                       constrainedPos = applyAxisConstraints opts (draggableState h) newPosition;
                       finalPos = constrainPosition opts constrainedPos;
                       d = \<lparr>pos_x = pos_x finalPos - pos_x (position (draggableState h)),
                            pos_y = pos_y finalPos - pos_y (position (draggableState h))\<rparr>;
                       newState =
                         \<lparr>isDragging = True,
                          position = finalPos,
                          delta = d,
                          startPosition = Some sp\<rparr>;
                       r = invoke (onMove opts) OnMove newState ev
                   in \<lparr>hook_after = h\<lparr>draggableState := newState\<rparr>,
                       calls = fst r, defaultPrevented = True, thrown = snd r\<rparr>))))"

definition handleDragEnd :: "UseDraggableOptions \<Rightarrow> hook \<Rightarrow> event \<Rightarrow> outcome" where
  "handleDragEnd opts h ev =
     (if \<not> isDragging (draggableState h) then unchanged h
      else
        (let newState = (draggableState h)\<lparr>isDragging := False\<rparr>;
             r = invoke (onEnd opts) OnEnd newState ev
         in \<lparr>hook_after = h\<lparr>draggableState := newState, startPosRef := None\<rparr>,
             calls = fst r, defaultPrevented = False, thrown = snd r\<rparr>))"

text \<open>
  The listener effect subscribes only when
  \<^verbatim>\<open>!(!customDocument || !customWindow || disabled)\<close>.
\<close>

definition listening :: "UseDraggableOptions \<Rightarrow> bool" where
  "listening opts =
     (if \<not> customDocument opts then False
      else if \<not> customWindow opts then False
      else if disabled opts then False
      else True)"

text \<open>\<^verbatim>\<open>handleMouseDown\<close> and \<^verbatim>\<open>handleTouchStart\<close> have the same body.\<close>

definition handleMouseDown ::
  "UseDraggableOptions \<Rightarrow> (node \<Rightarrow> DOMRect) \<Rightarrow> hook \<Rightarrow> event \<Rightarrow> outcome" where
  "handleMouseDown opts layout h ev =
     (if target ev = elementRef h then handleDragStart opts layout h ev else unchanged h)"

definition handleTouchStart ::
  "UseDraggableOptions \<Rightarrow> (node \<Rightarrow> DOMRect) \<Rightarrow> hook \<Rightarrow> event \<Rightarrow> outcome" where
  "handleTouchStart opts layout h ev =
     (if target ev = elementRef h then handleDragStart opts layout h ev else unchanged h)"

text \<open>
  An event of the given type reaches the document: the listener registered for that
  type runs, if the effect registered any.
\<close>

definition dispatchEvent ::
  "UseDraggableOptions \<Rightarrow> (node \<Rightarrow> DOMRect) \<Rightarrow> hook \<Rightarrow> event_type \<Rightarrow> event \<Rightarrow> outcome" where
  "dispatchEvent opts layout h ty ev =
     (if listening opts then
        (case ty of
           mousedown \<Rightarrow> handleMouseDown opts layout h ev
         | mousemove \<Rightarrow> handleDragMove opts h ev
         | mouseup \<Rightarrow> handleDragEnd opts h ev
         | touchstart \<Rightarrow> handleTouchStart opts layout h ev
         | touchmove \<Rightarrow> handleDragMove opts h ev
         | touchend \<Rightarrow> handleDragEnd opts h ev)
      else unchanged h)"

definition setElementRef :: "node option \<Rightarrow> hook \<Rightarrow> hook" where
  "setElementRef element h = h\<lparr>elementRef := element\<rparr>"

definition resetPosition :: "hook \<Rightarrow> hook" where
  "resetPosition h =
     h\<lparr>draggableState :=
         (draggableState h)\<lparr>position := \<lparr>pos_x = 0, pos_y = 0\<rparr>,
                             delta := \<lparr>pos_x = 0, pos_y = 0\<rparr>\<rparr>\<rparr>"

definition setPosition :: "UseDraggableOptions \<Rightarrow> real \<Rightarrow> real \<Rightarrow> hook \<Rightarrow> hook" where
  "setPosition opts px py h =
     (let newPos = constrainPosition opts \<lparr>pos_x = px, pos_y = py\<rparr>
      in h\<lparr>draggableState := (draggableState h)\<lparr>position := newPos\<rparr>\<rparr>)"

subsection \<open>Sequences of interactions\<close>

text \<open>
  What can happen to an instance: the ref callback is called (attach or detach), an event
  is dispatched, or the caller uses one of the two imperative methods. Each interaction
  comes with the page layout at that moment (the bounding rectangle of every node).
\<close>

datatype action =
  Ref "node option"
| Dispatch event_type event
| SetPosition real real
| ResetPosition

definition step ::
  "UseDraggableOptions \<Rightarrow> (node \<Rightarrow> DOMRect) \<Rightarrow> hook \<Rightarrow> action \<Rightarrow> outcome" where
  "step opts layout h a =
     (case a of
        Ref element \<Rightarrow> unchanged (setElementRef element h)
      | Dispatch ty ev \<Rightarrow> dispatchEvent opts layout h ty ev
      | SetPosition px py \<Rightarrow> unchanged (setPosition opts px py h)
      | ResetPosition \<Rightarrow> unchanged (resetPosition h))"

text \<open>
  An exception that escapes a listener is reported by the event loop and the page goes
  on, so a run continues from the instance the throwing handler left.
\<close>

primrec run ::
  "UseDraggableOptions \<Rightarrow> hook \<Rightarrow> ((node \<Rightarrow> DOMRect) \<times> action) list \<Rightarrow> hook" where
  "run opts h [] = h"
| "run opts h (a # as) = run opts (hook_after (step opts (fst a) h (snd a))) as"

text \<open>The callbacks invoked along a run, in order.\<close>

primrec run_calls ::
  "UseDraggableOptions \<Rightarrow> hook \<Rightarrow> ((node \<Rightarrow> DOMRect) \<times> action) list \<Rightarrow> call list" where
  "run_calls opts h [] = []"
| "run_calls opts h (a # as) =
     calls (step opts (fst a) h (snd a))
       @ run_calls opts (hook_after (step opts (fst a) h (snd a))) as"

subsection \<open>Predicates and fixtures used in the statements\<close>

text \<open>The inclusive rectangle \<^verbatim>\<open>left \<le> x \<le> right\<close>, \<^verbatim>\<open>top \<le> y \<le> bottom\<close>.\<close>

definition in_bounds :: "DraggableBounds \<Rightarrow> point \<Rightarrow> bool" where
  "in_bounds b p =
     (bounds_left b \<le> pos_x p \<and> pos_x p \<le> bounds_right b
      \<and> bounds_top b \<le> pos_y p \<and> pos_y p \<le> bounds_bottom b)"

text \<open>A coordinate that the vertical clamp, if there is one, leaves alone.\<close>

definition y_within :: "UseDraggableOptions \<Rightarrow> real \<Rightarrow> bool" where
  "y_within opts v =
     (case bounds opts of
        None \<Rightarrow> True
      | Some b \<Rightarrow> bounds_top b \<le> v \<and> v \<le> bounds_bottom b)"

text \<open>An interaction that is a \<^verbatim>\<open>mousemove\<close> or a \<^verbatim>\<open>touchmove\<close>.\<close>

definition is_move :: "action \<Rightarrow> bool" where
  "is_move a =
     (case a of
        Dispatch ty ev \<Rightarrow> (case ty of mousemove \<Rightarrow> True | touchmove \<Rightarrow> True | _ \<Rightarrow> False)
      | _ \<Rightarrow> False)"

text \<open>Options with a window and a document, as in a browser.\<close>

definition options ::
  "DraggableAxis \<Rightarrow> DraggableBounds option \<Rightarrow> bool
     \<Rightarrow> callback option \<Rightarrow> callback option \<Rightarrow> callback option \<Rightarrow> UseDraggableOptions" where
  "options ax bd dis cs cm ce =
     \<lparr>customWindow = True, customDocument = True, axis = ax, bounds = bd,
      disabled = dis, onStart = cs, onMove = cm, onEnd = ce\<rparr>"

text \<open>A page on which every node's bounding box has \<^verbatim>\<open>left = 10\<close> and \<^verbatim>\<open>top = 10\<close>.\<close>

definition page :: "node \<Rightarrow> DOMRect" where
  "page n = \<lparr>rect_left = 10, rect_top = 10\<rparr>"

text \<open>A callback that returns normally.\<close>

definition quiet :: callback where
  "quiet st ev = Returns"

text \<open>
  Node 1 is attached and was grabbed at \<^verbatim>\<open>(15, 15)\<close> on \<open>page\<close>, from the initial
  state.
\<close>

definition grabbed :: hook where
  "grabbed =
     \<lparr>draggableState =
        \<lparr>isDragging = True,
         position = \<lparr>pos_x = 0, pos_y = 0\<rparr>,
         delta = \<lparr>pos_x = 0, pos_y = 0\<rparr>,
         startPosition = Some \<lparr>pos_x = 5, pos_y = 5\<rparr>\<rparr>,
      elementRef = Some 1,
      startPosRef = Some \<lparr>pos_x = 5, pos_y = 5\<rparr>\<rparr>"

text \<open>The same drag after the pointer went to \<^verbatim>\<open>(115, 15)\<close>, with no bounds.\<close>

definition dragged :: hook where
  "dragged =
     \<lparr>draggableState =
        \<lparr>isDragging = True,
         position = \<lparr>pos_x = 110, pos_y = 10\<rparr>,
         delta = \<lparr>pos_x = 110, pos_y = 10\<rparr>,
         startPosition = Some \<lparr>pos_x = 5, pos_y = 5\<rparr>\<rparr>,
      elementRef = Some 1,
      startPosRef = Some \<lparr>pos_x = 5, pos_y = 5\<rparr>\<rparr>"

subsection \<open>Basic facts\<close>

lemmas handler_defs =
  dispatchEvent_def listening_def handleMouseDown_def handleTouchStart_def
  handleDragStart_def handleDragMove_def handleDragEnd_def getCurrentPosition_def
  constrainPosition_def applyAxisConstraints_def invoke_def unchanged_def
  setElementRef_def resetPosition_def setPosition_def step_def initial_def

lemmas fixture_defs = options_def page_def quiet_def grabbed_def dragged_def

text \<open>The two fixtures are states the hook really reaches.\<close>

lemma grabbed_reachable:
  "run (options ax bd False cs cm ce) initial
     [(page, Ref (Some 1)), (page, Dispatch mousedown (MouseEvent (Some 1) 15 15))] = grabbed"
  by (cases cs) (simp_all add: handler_defs fixture_defs Let_def)

lemma dragged_reachable:
  "run (options AxisBoth None False cs cm ce) initial
     [(page, Ref (Some 1)), (page, Dispatch mousedown (MouseEvent (Some 1) 15 15)),
      (page, Dispatch mousemove (MouseEvent tg 115 15))] = dragged"
  by (cases cs; cases cm) (simp_all add: handler_defs fixture_defs Let_def)

text \<open>
  The internal start offset is present only while dragging: every interaction keeps
  this, whatever the options and the layout.
\<close>

lemma step_keeps_ref:
  assumes "isDragging (draggableState h) \<or> startPosRef h = None"
  shows "isDragging (draggableState (hook_after (step opts layout h a)))
         \<or> startPosRef (hook_after (step opts layout h a)) = None"
proof (cases a)
  case (Ref element)
  with assms show ?thesis by (simp add: step_def unchanged_def setElementRef_def)
next
  case (Dispatch ty ev)
  with assms show ?thesis
    by (cases ty)
       (auto simp: step_def dispatchEvent_def handleMouseDown_def handleTouchStart_def
          handleDragStart_def handleDragMove_def handleDragEnd_def unchanged_def Let_def
          split: sum.splits option.splits)
next
  case (SetPosition px py)
  with assms show ?thesis by (simp add: step_def unchanged_def setPosition_def Let_def)
next
  case ResetPosition
  with assms show ?thesis by (simp add: step_def unchanged_def resetPosition_def)
qed

lemma run_keeps_ref:
  "isDragging (draggableState h) \<or> startPosRef h = None \<Longrightarrow>
   isDragging (draggableState (run opts h acts)) \<or> startPosRef (run opts h acts) = None"
proof (induction acts arbitrary: h)
  case Nil
  then show ?case by simp
next
  case (Cons a acts)
  from Cons.prems
  have "isDragging (draggableState (hook_after (step opts (fst a) h (snd a))))
         \<or> startPosRef (hook_after (step opts (fst a) h (snd a))) = None"
    by (rule step_keeps_ref)
  then show ?case using Cons.IH by simp
qed

text \<open>With \<^verbatim>\<open>axis = "x"\<close>, one move keeps a \<open>y\<close> that the clamp leaves alone.\<close>

lemma move_keeps_y:
  assumes "axis opts = AxisX" and "is_move a"
    and "y_within opts (pos_y (position (draggableState h)))"
  shows "pos_y (position (draggableState (hook_after (step opts layout h a))))
           = pos_y (position (draggableState h))"
proof -
  from assms(2) obtain ty ev
    where a: "a = Dispatch ty ev" and ty: "ty = mousemove \<or> ty = touchmove"
    by (auto simp: is_move_def split: action.splits event_type.splits)
  have "hook_after (step opts layout h a) = hook_after (handleDragMove opts h ev)
        \<or> hook_after (step opts layout h a) = h"
    using a ty by (auto simp: step_def dispatchEvent_def unchanged_def)
  moreover
  have "pos_y (position (draggableState (hook_after (handleDragMove opts h ev))))
           = pos_y (position (draggableState h))"
    using assms(1,3)
    by (auto simp: handleDragMove_def unchanged_def Let_def applyAxisConstraints_def
          constrainPosition_def y_within_def split: option.splits sum.splits)
  ultimately show ?thesis by auto
qed

section \<open>The claims\<close>

subsection \<open>A start event during a drag\<close>

text \<open>
  Claim C1, as stated: with \<open>isDragging = true\<close> and \<open>disabled = false\<close>, a pointer-down on
  the attached element leaves the state unchanged and fires no callback. It fails:
  \<^verbatim>\<open>handleDragStart\<close> has no guard on \<open>isDragging\<close>. In the dragged state of the end-to-end
  scenario, a second \<^verbatim>\<open>mousedown\<close> at \<^verbatim>\<open>(20, 20)\<close> on the attached node changes the state
  and calls \<^verbatim>\<open>onStart\<close>.
\<close>

theorem nested_start_counterexample:
  "draggableState
     (hook_after (dispatchEvent (options AxisBoth None False (Some quiet) None None) page
        dragged mousedown (MouseEvent (Some 1) 20 20)))
     \<noteq> draggableState dragged
   \<and> calls (dispatchEvent (options AxisBoth None False (Some quiet) None None) page
        dragged mousedown (MouseEvent (Some 1) 20 20))
     = [OnStart
          \<lparr>isDragging = True,
           position = \<lparr>pos_x = 110, pos_y = 10\<rparr>,
           delta = \<lparr>pos_x = 0, pos_y = 0\<rparr>,
           startPosition = Some \<lparr>pos_x = 10, pos_y = 10\<rparr>\<rparr>
          (MouseEvent (Some 1) 20 20)]"
  by (simp add: handler_defs fixture_defs Let_def)

text \<open>
  Claim C1, amended: with \<open>isDragging = true\<close> and \<open>disabled = false\<close> (listeners
  subscribed), a pointer/touch-down on the attached element that carries a pointer position
  restarts the session. \<open>isDragging\<close> stays true and \<open>position\<close> is unchanged, \<open>delta\<close> is
  reset to \<open>{0,0}\<close>, the start offset (the ref and the exposed \<open>startPosition\<close>) is recorded
  again as the pointer position minus the top-left corner of the element's bounding box, and
  \<^verbatim>\<open>onStart\<close>, when supplied, is invoked once with the new state.
\<close>

theorem start_while_dragging_restarts:
  assumes "listening opts" and "isDragging (draggableState h)"
    and "elementRef h = Some el" and "target ev = Some el"
    and "getCurrentPosition ev = Inr p" and "ty = mousedown \<or> ty = touchstart"
  shows "hook_after (dispatchEvent opts layout h ty ev)
           = h\<lparr>draggableState :=
                 (draggableState h)
                   \<lparr>delta := \<lparr>pos_x = 0, pos_y = 0\<rparr>,
                    startPosition := Some \<lparr>pos_x = pos_x p - rect_left (layout el),
                                           pos_y = pos_y p - rect_top (layout el)\<rparr>\<rparr>,
               startPosRef := Some \<lparr>pos_x = pos_x p - rect_left (layout el),
                                    pos_y = pos_y p - rect_top (layout el)\<rparr>\<rparr>
         \<and> calls (dispatchEvent opts layout h ty ev)
           = (case onStart opts of
                None \<Rightarrow> []
              | Some f \<Rightarrow>
                  [OnStart (draggableState (hook_after (dispatchEvent opts layout h ty ev))) ev])"
proof -
  from assms(1) have nd: "\<not> disabled opts"
    by (simp add: listening_def split: if_splits)
  have "dispatchEvent opts layout h ty ev = handleDragStart opts layout h ev"
    using assms(1,3,4,6)
    by (auto simp: dispatchEvent_def handleMouseDown_def handleTouchStart_def)
  then show ?thesis
    using nd assms(2,3,5)
    by (cases "onStart opts") (simp_all add: handleDragStart_def invoke_def Let_def)
qed

theorem start_while_dragging_restarts_witness:
  "listening (options AxisBoth None False (Some quiet) None None)
   \<and> isDragging (draggableState dragged)
   \<and> hook_after (dispatchEvent (options AxisBoth None False (Some quiet) None None) page
        dragged touchstart (TouchEvent (Some 1) [(20, 20)]))
     = \<lparr>draggableState =
          \<lparr>isDragging = True,
           position = \<lparr>pos_x = 110, pos_y = 10\<rparr>,
           delta = \<lparr>pos_x = 0, pos_y = 0\<rparr>,
           startPosition = Some \<lparr>pos_x = 10, pos_y = 10\<rparr>\<rparr>,
        elementRef = Some 1,
        startPosRef = Some \<lparr>pos_x = 10, pos_y = 10\<rparr>\<rparr>"
  using start_while_dragging_restarts
    [of "options AxisBoth None False (Some quiet) None None" dragged 1
        "TouchEvent (Some 1) [(20, 20)]" "\<lparr>pos_x = 20, pos_y = 20\<rparr>" touchstart page]
  by (simp add: listening_def getCurrentPosition_def fixture_defs)

subsection \<open>What holds when no drag is in progress\<close>

text \<open>
  Claim C2, as stated: in every reachable state, \<open>isDragging = false\<close> implies that
  \<open>startPosition\<close> is absent and \<open>delta = {0,0}\<close>. It fails after the pointer-up of the
  end-to-end scenario: \<^verbatim>\<open>handleDragEnd\<close> spreads the old state and only sets \<open>isDragging\<close>.
\<close>

theorem idle_state_counterexample:
  "\<not> isDragging (draggableState
       (run (options AxisBoth None False None None None) initial
          [(page, Ref (Some 1)),
           (page, Dispatch mousedown (MouseEvent (Some 1) 15 15)),
           (page, Dispatch mousemove (MouseEvent (Some 1) 115 15)),
           (page, Dispatch mouseup (MouseEvent (Some 1) 115 15))]))
   \<and> startPosition (draggableState
       (run (options AxisBoth None False None None None) initial
          [(page, Ref (Some 1)),
           (page, Dispatch mousedown (MouseEvent (Some 1) 15 15)),
           (page, Dispatch mousemove (MouseEvent (Some 1) 115 15)),
           (page, Dispatch mouseup (MouseEvent (Some 1) 115 15))]))
     = Some \<lparr>pos_x = 5, pos_y = 5\<rparr>
   \<and> delta (draggableState
       (run (options AxisBoth None False None None None) initial
          [(page, Ref (Some 1)),
           (page, Dispatch mousedown (MouseEvent (Some 1) 15 15)),
           (page, Dispatch mousemove (MouseEvent (Some 1) 115 15)),
           (page, Dispatch mouseup (MouseEvent (Some 1) 115 15))]))
     = \<lparr>pos_x = 110, pos_y = 10\<rparr>"
  by (simp add: handler_defs fixture_defs Let_def)

text \<open>
  Claim C2, amended: in every state reachable from the initial one by attach, pointer/touch
  events, \<open>setPosition\<close> and \<open>resetPosition\<close>, \<open>isDragging = false\<close> implies that the
  internal start offset (\<^verbatim>\<open>startPosRef\<close>) is absent; and a pointer/touch-up that ends a drag
  sets \<open>isDragging = false\<close> and clears that internal offset, while \<open>position\<close>, \<open>delta\<close> and
  the exposed \<open>startPosition\<close> keep the values they had before the event.
\<close>

theorem idle_implies_no_start_offset:
  "(\<not> isDragging (draggableState (run opts initial acts)) \<longrightarrow>
       startPosRef (run opts initial acts) = None)
   \<and> (listening opts \<and> isDragging (draggableState h) \<and> (ty = mouseup \<or> ty = touchend) \<longrightarrow>
        hook_after (dispatchEvent opts layout h ty ev)
          = h\<lparr>draggableState := (draggableState h)\<lparr>isDragging := False\<rparr>,
              startPosRef := None\<rparr>)"
proof -
  have "isDragging (draggableState initial) \<or> startPosRef initial = None"
    by (simp add: initial_def)
  then have "isDragging (draggableState (run opts initial acts))
      \<or> startPosRef (run opts initial acts) = None"
    by (rule run_keeps_ref)
  moreover
  have "listening opts \<and> isDragging (draggableState h) \<and> (ty = mouseup \<or> ty = touchend) \<longrightarrow>
        hook_after (dispatchEvent opts layout h ty ev)
          = h\<lparr>draggableState := (draggableState h)\<lparr>isDragging := False\<rparr>,
              startPosRef := None\<rparr>"
    by (auto simp: dispatchEvent_def handleDragEnd_def Let_def)
  ultimately show ?thesis by blast
qed

theorem idle_implies_no_start_offset_witness:
  "\<not> isDragging (draggableState
       (run (options AxisBoth None False None None None) initial
          [(page, Ref (Some 1)),
           (page, Dispatch mousedown (MouseEvent (Some 1) 15 15)),
           (page, Dispatch mouseup (MouseEvent (Some 1) 15 15))]))
   \<and> startPosRef
       (run (options AxisBoth None False None None None) initial
          [(page, Ref (Some 1)),
           (page, Dispatch mousedown (MouseEvent (Some 1) 15 15)),
           (page, Dispatch mouseup (MouseEvent (Some 1) 15 15))]) = None
   \<and> hook_after (dispatchEvent (options AxisBoth None False None None None) page
        dragged touchend (TouchEvent None []))
     = \<lparr>draggableState =
          \<lparr>isDragging = False,
           position = \<lparr>pos_x = 110, pos_y = 10\<rparr>,
           delta = \<lparr>pos_x = 110, pos_y = 10\<rparr>,
           startPosition = Some \<lparr>pos_x = 5, pos_y = 5\<rparr>\<rparr>,
        elementRef = Some 1,
        startPosRef = None\<rparr>"
proof -
  let ?opts = "options AxisBoth None False None None None"
  let ?acts = "[(page, Ref (Some 1)),
           (page, Dispatch mousedown (MouseEvent (Some 1) 15 15)),
           (page, Dispatch mouseup (MouseEvent (Some 1) 15 15))]"
  have idle: "\<not> isDragging (draggableState (run ?opts initial ?acts))"
    by (simp add: handler_defs fixture_defs Let_def)
  have lis: "listening ?opts" and drg: "isDragging (draggableState dragged)"
    by (simp_all add: listening_def fixture_defs)
  from idle_implies_no_start_offset
         [of ?opts ?acts dragged touchend page "TouchEvent None []"] idle lis drg
  show ?thesis by (simp add: fixture_defs)
qed

subsection \<open>Bounds\<close>

text \<open>
  Claim C3, as stated: for every bounds rectangle, \<open>position\<close> lies within the bounds
  after every move update, every \<open>setPosition\<close> and every \<open>resetPosition\<close>. It fails twice:
  \<^verbatim>\<open>resetPosition\<close> stores \<open>{0,0}\<close> without clamping, so with bounds that start at 10 the
  stored position is outside; and with inverted bounds (\<open>left = 50 > right = 0\<close>)
  \<^verbatim>\<open>Math.max(left, Math.min(right, x))\<close> is \<open>left\<close>, which is beyond \<open>right\<close>.
\<close>

theorem bounds_counterexample:
  "\<not> in_bounds \<lparr>bounds_left = 10, bounds_top = 10, bounds_right = 50, bounds_bottom = 50\<rparr>
       (position (draggableState (resetPosition initial)))
   \<and> \<not> in_bounds \<lparr>bounds_left = 50, bounds_top = 0, bounds_right = 0, bounds_bottom = 50\<rparr>
       (position (draggableState
          (setPosition
             (options AxisBoth
                (Some \<lparr>bounds_left = 50, bounds_top = 0, bounds_right = 0, bounds_bottom = 50\<rparr>)
                False None None None)
             20 20 initial)))"
  by (simp add: in_bounds_def handler_defs fixture_defs Let_def)

text \<open>
  Claim C3, amended: for every configured bounds rectangle with \<open>left \<le> right\<close> and
  \<open>top \<le> bottom\<close>, the position stored by every \<open>setPosition(x, y)\<close> call and by every
  move event that updates the state lies within the bounds; the \<open>{0,0}\<close> stored by
  \<open>resetPosition()\<close> lies within them when the bounds contain the origin.
\<close>

theorem position_within_bounds:
  assumes "bounds opts = Some b" and "bounds_left b \<le> bounds_right b"
    and "bounds_top b \<le> bounds_bottom b" and "ty = mousemove \<or> ty = touchmove"
  shows "in_bounds b (position (draggableState (setPosition opts px py h)))
     \<and> (draggableState (hook_after (dispatchEvent opts layout h ty ev)) = draggableState h
          \<or> in_bounds b
               (position (draggableState (hook_after (dispatchEvent opts layout h ty ev)))))
     \<and> (in_bounds b \<lparr>pos_x = 0, pos_y = 0\<rparr> \<longrightarrow>
          in_bounds b (position (draggableState (resetPosition h))))"
proof -
  have set: "in_bounds b (position (draggableState (setPosition opts px py h)))"
    using assms(1,2,3)
    by (simp add: in_bounds_def setPosition_def constrainPosition_def Let_def)
  have "hook_after (dispatchEvent opts layout h ty ev) = h
        \<or> dispatchEvent opts layout h ty ev = handleDragMove opts h ev"
    using assms(4) by (auto simp: dispatchEvent_def unchanged_def)
  moreover
  have "draggableState (hook_after (handleDragMove opts h ev)) = draggableState h
        \<or> in_bounds b (position (draggableState (hook_after (handleDragMove opts h ev))))"
    using assms(1,2,3)
    by (auto simp: in_bounds_def handleDragMove_def constrainPosition_def unchanged_def
          Let_def split: option.splits sum.splits)
  ultimately
  have move: "draggableState (hook_after (dispatchEvent opts layout h ty ev)) = draggableState h
          \<or> in_bounds b
               (position (draggableState (hook_after (dispatchEvent opts layout h ty ev))))"
    by auto
  have reset: "in_bounds b \<lparr>pos_x = 0, pos_y = 0\<rparr> \<longrightarrow>
          in_bounds b (position (draggableState (resetPosition h)))"
    by (simp add: resetPosition_def)
  from set move reset show ?thesis by blast
qed

theorem position_within_bounds_witness:
  "in_bounds \<lparr>bounds_left = 0, bounds_top = 0, bounds_right = 50, bounds_bottom = 50\<rparr>
     \<lparr>pos_x = 50, pos_y = 0\<rparr>
   \<and> position (draggableState
       (setPosition
          (options AxisBoth
             (Some \<lparr>bounds_left = 0, bounds_top = 0, bounds_right = 50, bounds_bottom = 50\<rparr>)
             False None None None)
          70 (- 3) grabbed))
     = \<lparr>pos_x = 50, pos_y = 0\<rparr>
   \<and> in_bounds \<lparr>bounds_left = 0, bounds_top = 0, bounds_right = 50, bounds_bottom = 50\<rparr>
       \<lparr>pos_x = 50, pos_y = 10\<rparr>
   \<and> position (draggableState (hook_after
       (dispatchEvent
          (options AxisBoth
             (Some \<lparr>bounds_left = 0, bounds_top = 0, bounds_right = 50, bounds_bottom = 50\<rparr>)
             False None None None)
          page grabbed mousemove (MouseEvent None 115 15))))
     = \<lparr>pos_x = 50, pos_y = 10\<rparr>
   \<and> in_bounds \<lparr>bounds_left = 0, bounds_top = 0, bounds_right = 50, bounds_bottom = 50\<rparr>
       (position (draggableState (resetPosition grabbed)))"
proof -
  let ?b = "\<lparr>bounds_left = 0, bounds_top = 0, bounds_right = 50, bounds_bottom = 50\<rparr>"
  let ?opts = "options AxisBoth (Some ?b) False None None None"
  have set: "position (draggableState (setPosition ?opts 70 (- 3) grabbed))
      = \<lparr>pos_x = 50, pos_y = 0\<rparr>"
    by (simp add: handler_defs fixture_defs Let_def)
  have move: "position (draggableState (hook_after
       (dispatchEvent ?opts page grabbed mousemove (MouseEvent None 115 15))))
      = \<lparr>pos_x = 50, pos_y = 10\<rparr>"
    by (simp add: handler_defs fixture_defs Let_def)
  have changed: "draggableState (hook_after
       (dispatchEvent ?opts page grabbed mousemove (MouseEvent None 115 15)))
      \<noteq> draggableState grabbed"
    by (simp add: handler_defs fixture_defs Let_def)
  have origin: "in_bounds ?b \<lparr>pos_x = 0, pos_y = 0\<rparr>"
    by (simp add: in_bounds_def)
  have hyps: "bounds ?opts = Some ?b" "bounds_left ?b \<le> bounds_right ?b"
    "bounds_top ?b \<le> bounds_bottom ?b" "mousemove = mousemove \<or> mousemove = touchmove"
    by (simp_all add: options_def)
  from position_within_bounds [OF hyps, of 70 "- 3" grabbed page "MouseEvent None 115 15"]
    set move changed origin
  show ?thesis by simp
qed

subsection \<open>Exceptions\<close>

text \<open>
  Claim C4: the controller's own event processing never throws; the only exception that
  can escape is one raised by a caller-supplied callback. The code misses a case: during a
  drag, with no callback supplied at all, a \<^verbatim>\<open>touchmove\<close> whose \<^verbatim>\<open>touches\<close> list is empty
  makes \<^verbatim>\<open>getCurrentPosition\<close> read \<^verbatim>\<open>clientX\<close> of \<^verbatim>\<open>undefined\<close>, and the TypeError escapes
  the listener (after \<^verbatim>\<open>preventDefault\<close>, before any state update). The same happens for a
  \<^verbatim>\<open>touchstart\<close> on the attached element.
\<close>

theorem touch_without_contact_throws:
  "dispatchEvent (options AxisBoth None False None None None) page grabbed
      touchmove (TouchEvent (Some 1) [])
     = \<lparr>hook_after = grabbed, calls = [], defaultPrevented = True, thrown = Some TypeError\<rparr>
   \<and> dispatchEvent (options AxisBoth None False None None None) page
        (setElementRef (Some 1) initial) touchstart (TouchEvent (Some 1) [])
     = \<lparr>hook_after = setElementRef (Some 1) initial, calls = [], defaultPrevented = True,
        thrown = Some TypeError\<rparr>"
  by (simp add: handler_defs fixture_defs Let_def)

text \<open>
  What does hold of claim C4. A move event with no drag in progress is a silent no-op,
  and so is an up event.
\<close>

lemma move_without_start_is_noop:
  assumes "\<not> isDragging (draggableState h)"
    and "ty = mousemove \<or> ty = touchmove \<or> ty = mouseup \<or> ty = touchend"
  shows "dispatchEvent opts layout h ty ev = unchanged h"
  using assms by (auto simp: dispatchEvent_def handleDragMove_def handleDragEnd_def)

text \<open>
  And an event that carries a pointer position (a mouse event, or a touch event with at
  least one contact point) lets no exception escape but that of a callback it invoked.
\<close>

lemma only_callbacks_throw:
  assumes "getCurrentPosition ev = Inr p"
    and "thrown (dispatchEvent opts layout h ty ev) = Some e"
  shows "e = CallbackThrown \<and> calls (dispatchEvent opts layout h ty ev) \<noteq> []"
proof (cases "listening opts")
  case False
  with assms(2) show ?thesis by (simp add: dispatchEvent_def unchanged_def)
next
  case True
  have start: "thrown (handleDragStart opts layout h ev) = Some e \<Longrightarrow>
      e = CallbackThrown \<and> calls (handleDragStart opts layout h ev) \<noteq> []"
    using assms(1)
    by (auto simp: handleDragStart_def unchanged_def invoke_def Let_def
          split: if_splits option.splits completion.splits)
  have move: "thrown (handleDragMove opts h ev) = Some e \<Longrightarrow>
      e = CallbackThrown \<and> calls (handleDragMove opts h ev) \<noteq> []"
    using assms(1)
    by (auto simp: handleDragMove_def unchanged_def invoke_def Let_def
          split: if_splits option.splits completion.splits)
  have fin: "thrown (handleDragEnd opts h ev) = Some e \<Longrightarrow>
      e = CallbackThrown \<and> calls (handleDragEnd opts h ev) \<noteq> []"
    by (auto simp: handleDragEnd_def unchanged_def invoke_def Let_def
          split: if_splits option.splits completion.splits)
  from True assms(2) start move fin show ?thesis
    by (cases ty)
       (auto simp: dispatchEvent_def handleMouseDown_def handleTouchStart_def unchanged_def
          split: if_splits)
qed

subsection \<open>Delta\<close>

text \<open>
  Claim C5: for every move event processed during a drag session (any axis, any bounds),
  the stored \<open>delta\<close> is the new position, after the axis constraint and the clamp, minus
  the position stored before the move, component by component.
\<close>

theorem delta_is_position_change:
  assumes "listening opts" and "isDragging (draggableState h)" and "startPosRef h = Some sp"
    and "getCurrentPosition ev = Inr p" and "ty = mousemove \<or> ty = touchmove"
  shows "position (draggableState (hook_after (dispatchEvent opts layout h ty ev)))
           = constrainPosition opts (applyAxisConstraints opts (draggableState h)
               \<lparr>pos_x = pos_x p - pos_x sp, pos_y = pos_y p - pos_y sp\<rparr>)
         \<and> pos_x (delta (draggableState (hook_after (dispatchEvent opts layout h ty ev))))
           = pos_x (position (draggableState (hook_after (dispatchEvent opts layout h ty ev))))
             - pos_x (position (draggableState h))
         \<and> pos_y (delta (draggableState (hook_after (dispatchEvent opts layout h ty ev))))
           = pos_y (position (draggableState (hook_after (dispatchEvent opts layout h ty ev))))
             - pos_y (position (draggableState h))"
proof -
  from assms(1) have nd: "\<not> disabled opts"
    by (simp add: listening_def split: if_splits)
  have "dispatchEvent opts layout h ty ev = handleDragMove opts h ev"
    using assms(1,5) by (auto simp: dispatchEvent_def)
  then show ?thesis using assms(2,3,4) nd
    by (simp add: handleDragMove_def Let_def)
qed

text \<open>
  An instance with a clamp: from \<open>position = {110, 10}\<close>, bounds \<open>{0, 0, 50, 50}\<close> and the
  pointer at \<^verbatim>\<open>(215, 95)\<close>, the raw position is \<open>{210, 90}\<close>, the stored one \<open>{50, 50}\<close>, and
  \<open>delta = {-60, 40}\<close>, not the pointer's movement \<open>{100, 80}\<close>.
\<close>

theorem delta_is_position_change_witness:
  "listening (options AxisBoth
      (Some \<lparr>bounds_left = 0, bounds_top = 0, bounds_right = 50, bounds_bottom = 50\<rparr>)
      False None None None)
   \<and> isDragging (draggableState dragged)
   \<and> position (draggableState (hook_after
       (dispatchEvent
          (options AxisBoth
             (Some \<lparr>bounds_left = 0, bounds_top = 0, bounds_right = 50, bounds_bottom = 50\<rparr>)
             False None None None)
          page dragged touchmove (TouchEvent None [(215, 95)]))))
     = \<lparr>pos_x = 50, pos_y = 50\<rparr>
   \<and> pos_x (delta (draggableState (hook_after
       (dispatchEvent
          (options AxisBoth
             (Some \<lparr>bounds_left = 0, bounds_top = 0, bounds_right = 50, bounds_bottom = 50\<rparr>)
             False None None None)
          page dragged touchmove (TouchEvent None [(215, 95)]))))) = - 60
   \<and> pos_y (delta (draggableState (hook_after
       (dispatchEvent
          (options AxisBoth
             (Some \<lparr>bounds_left = 0, bounds_top = 0, bounds_right = 50, bounds_bottom = 50\<rparr>)
             False None None None)
          page dragged touchmove (TouchEvent None [(215, 95)]))))) = 40"
proof -
  let ?opts = "options AxisBoth
      (Some \<lparr>bounds_left = 0, bounds_top = 0, bounds_right = 50, bounds_bottom = 50\<rparr>)
      False None None None"
  have hyps: "listening ?opts" "isDragging (draggableState dragged)"
    "startPosRef dragged = Some \<lparr>pos_x = 5, pos_y = 5\<rparr>"
    "getCurrentPosition (TouchEvent None [(215, 95)]) = Inr \<lparr>pos_x = 215, pos_y = 95\<rparr>"
    "touchmove = mousemove \<or> touchmove = touchmove"
    by (simp_all add: listening_def getCurrentPosition_def fixture_defs)
  from delta_is_position_change [OF hyps, of page] hyps(1,2)
  show ?thesis
    by (simp add: constrainPosition_def applyAxisConstraints_def fixture_defs)
qed

subsection \<open>Axis constraint\<close>

text \<open>
  Claim C6, as stated: with \<^verbatim>\<open>axis = "x"\<close> and any bounds, every \<open>position.y\<close> during a drag
  equals the \<open>position.y\<close> at its start. It fails when that \<open>y\<close> is outside the bounds: the
  clamp runs after the axis constraint. From the initial \<open>{0,0}\<close> with bounds whose top is
  10, the first move stores \<open>y = 10\<close>.
\<close>

theorem axis_x_counterexample:
  "pos_y (position (draggableState
     (run (options AxisX
             (Some \<lparr>bounds_left = 0, bounds_top = 10, bounds_right = 50, bounds_bottom = 50\<rparr>)
             False None None None)
        initial
        [(page, Ref (Some 1)),
         (page, Dispatch mousedown (MouseEvent (Some 1) 15 15))]))) = 0
   \<and> pos_y (position (draggableState
     (run (options AxisX
             (Some \<lparr>bounds_left = 0, bounds_top = 10, bounds_right = 50, bounds_bottom = 50\<rparr>)
             False None None None)
        initial
        [(page, Ref (Some 1)),
         (page, Dispatch mousedown (MouseEvent (Some 1) 15 15)),
         (page, Dispatch mousemove (MouseEvent (Some 1) 35 15))]))) = 10"
  by (simp add: handler_defs fixture_defs Let_def)

text \<open>
  Claim C6, amended: with \<^verbatim>\<open>axis = "x"\<close>, for every sequence of move events, every resulting
  \<open>position.y\<close> equals the \<open>position.y\<close> at the start, provided that no bounds are
  configured or that this \<open>y\<close> lies within \<open>[bounds.top, bounds.bottom]\<close>. (The statement is
  for every sequence, hence for every prefix of one.)
\<close>

theorem axis_x_keeps_y:
  assumes "axis opts = AxisX" and "list_all (\<lambda>a. is_move (snd a)) acts"
    and "y_within opts (pos_y (position (draggableState h)))"
  shows "pos_y (position (draggableState (run opts h acts)))
           = pos_y (position (draggableState h))"
  using assms(2,3)
proof (induction acts arbitrary: h)
  case Nil
  then show ?case by simp
next
  case (Cons a acts)
  let ?h = "hook_after (step opts (fst a) h (snd a))"
  from Cons.prems have mv: "is_move (snd a)" and rest: "list_all (\<lambda>a. is_move (snd a)) acts"
    by simp_all
  have eq: "pos_y (position (draggableState ?h)) = pos_y (position (draggableState h))"
    using assms(1) mv Cons.prems(2) by (rule move_keeps_y)
  with Cons.prems(2) have "y_within opts (pos_y (position (draggableState ?h)))" by simp
  with rest have "pos_y (position (draggableState (run opts ?h acts)))
      = pos_y (position (draggableState ?h))"
    by (rule Cons.IH)
  with eq show ?case by simp
qed

theorem axis_x_keeps_y_witness:
  "y_within
     (options AxisX
        (Some \<lparr>bounds_left = 0, bounds_top = 0, bounds_right = 50, bounds_bottom = 50\<rparr>)
        False None None None)
     (pos_y (position (draggableState grabbed)))
   \<and> position (draggableState
       (run (options AxisX
               (Some \<lparr>bounds_left = 0, bounds_top = 0, bounds_right = 50, bounds_bottom = 50\<rparr>)
               False None None None)
          grabbed
          [(page, Dispatch mousemove (MouseEvent None 115 15)),
           (page, Dispatch touchmove (TouchEvent None [(30, 80)]))]))
     = \<lparr>pos_x = 25, pos_y = 0\<rparr>"
proof -
  let ?opts = "options AxisX
        (Some \<lparr>bounds_left = 0, bounds_top = 0, bounds_right = 50, bounds_bottom = 50\<rparr>)
        False None None None"
  let ?acts = "[(page, Dispatch mousemove (MouseEvent None 115 15)),
           (page, Dispatch touchmove (TouchEvent None [(30, 80)]))]"
  have hyps: "axis ?opts = AxisX" "list_all (\<lambda>a. is_move (snd a)) ?acts"
    "y_within ?opts (pos_y (position (draggableState grabbed)))"
    by (simp_all add: is_move_def y_within_def fixture_defs)
  have px: "pos_x (position (draggableState (run ?opts grabbed ?acts))) = 25"
    by (simp add: handler_defs fixture_defs Let_def)
  have "pos_y (position (draggableState (run ?opts grabbed ?acts))) = 0"
    using axis_x_keeps_y [OF hyps] by (simp add: grabbed_def)
  with px hyps(3) show ?thesis
    by (cases "position (draggableState (run ?opts grabbed ?acts))") simp
qed

subsection \<open>The end-to-end scenario\<close>

text \<open>
  Claim C7: with \<^verbatim>\<open>axis = "both"\<close>, no bounds, an attached element whose bounding box has
  \<open>left = 10\<close>, \<open>top = 10\<close>, and the initial position \<open>{0,0}\<close>: a pointer-down at \<^verbatim>\<open>(15, 15)\<close>
  gives \<open>startPosition = {5,5}\<close> and \<open>isDragging = true\<close>; a pointer-move to \<^verbatim>\<open>(115, 15)\<close>
  gives \<open>position = {110,10}\<close> and \<open>delta = {110,10}\<close>; a pointer-up gives
  \<open>isDragging = false\<close> with \<open>delta\<close> as the move left it, and \<^verbatim>\<open>onEnd\<close> is invoked exactly once
  in the whole scenario, with that final state. The element, the targets of the move and of
  the up event, and the three callbacks are arbitrary.
\<close>

theorem end_to_end_scenario:
  "draggableState
     (run (options AxisBoth None False cs cm (Some ce)) initial
        [(page, Ref (Some el)),
         (page, Dispatch mousedown (MouseEvent (Some el) 15 15))])
     = \<lparr>isDragging = True,
        position = \<lparr>pos_x = 0, pos_y = 0\<rparr>,
        delta = \<lparr>pos_x = 0, pos_y = 0\<rparr>,
        startPosition = Some \<lparr>pos_x = 5, pos_y = 5\<rparr>\<rparr>
   \<and> draggableState
     (run (options AxisBoth None False cs cm (Some ce)) initial
        [(page, Ref (Some el)),
         (page, Dispatch mousedown (MouseEvent (Some el) 15 15)),
         (page, Dispatch mousemove (MouseEvent tg 115 15))])
     = \<lparr>isDragging = True,
        position = \<lparr>pos_x = 110, pos_y = 10\<rparr>,
        delta = \<lparr>pos_x = 110, pos_y = 10\<rparr>,
        startPosition = Some \<lparr>pos_x = 5, pos_y = 5\<rparr>\<rparr>
   \<and> draggableState
     (run (options AxisBoth None False cs cm (Some ce)) initial
        [(page, Ref (Some el)),
         (page, Dispatch mousedown (MouseEvent (Some el) 15 15)),
         (page, Dispatch mousemove (MouseEvent tg 115 15)),
         (page, Dispatch mouseup (MouseEvent tg' 115 15))])
     = \<lparr>isDragging = False,
        position = \<lparr>pos_x = 110, pos_y = 10\<rparr>,
        delta = \<lparr>pos_x = 110, pos_y = 10\<rparr>,
        startPosition = Some \<lparr>pos_x = 5, pos_y = 5\<rparr>\<rparr>
   \<and> filter is_OnEnd
       (run_calls (options AxisBoth None False cs cm (Some ce)) initial
          [(page, Ref (Some el)),
           (page, Dispatch mousedown (MouseEvent (Some el) 15 15)),
           (page, Dispatch mousemove (MouseEvent tg 115 15)),
           (page, Dispatch mouseup (MouseEvent tg' 115 15))])
     = [OnEnd
          \<lparr>isDragging = False,
           position = \<lparr>pos_x = 110, pos_y = 10\<rparr>,
           delta = \<lparr>pos_x = 110, pos_y = 10\<rparr>,
           startPosition = Some \<lparr>pos_x = 5, pos_y = 5\<rparr>\<rparr>
          (MouseEvent tg' 115 15)]"
  by (cases cs; cases cm) (simp_all add: handler_defs options_def page_def Let_def)

subsection \<open>setPosition\<close>

text \<open>
  Claim C8: \<open>setPosition(x, y)\<close> stores \<open>(x, y)\<close> clamped into the bounds when bounds are
  configured, exactly \<open>(x, y)\<close> otherwise, and changes nothing else: \<open>isDragging\<close>, \<open>delta\<close>
  and \<open>startPosition\<close> (and the two refs) are as before, and no callback is invoked.
\<close>

theorem setPosition_frame:
  "step opts layout h (SetPosition px py)
     = \<lparr>hook_after =
          h\<lparr>draggableState := (draggableState h)
              \<lparr>position :=
                 (case bounds opts of
                    None \<Rightarrow> \<lparr>pos_x = px, pos_y = py\<rparr>
                  | Some b \<Rightarrow>
                      \<lparr>pos_x = max (bounds_left b) (min (bounds_right b) px),
                       pos_y = max (bounds_top b) (min (bounds_bottom b) py)\<rparr>)\<rparr>\<rparr>,
        calls = [], defaultPrevented = False, thrown = None\<rparr>
   \<and> isDragging (draggableState (setPosition opts px py h)) = isDragging (draggableState h)
   \<and> delta (draggableState (setPosition opts px py h)) = delta (draggableState h)
   \<and> startPosition (draggableState (setPosition opts px py h))
       = startPosition (draggableState h)
   \<and> elementRef (setPosition opts px py h) = elementRef h
   \<and> startPosRef (setPosition opts px py h) = startPosRef h"
  by (simp add: step_def setPosition_def constrainPosition_def unchanged_def Let_def
        split: option.splits)

subsection \<open>Disabled\<close>

text \<open>
  Claim C9: with \<open>disabled = true\<close>, for every pointer/touch event (down, move or up) and
  every prior state, the state is unchanged after the event and none of \<^verbatim>\<open>onStart\<close>,
  \<^verbatim>\<open>onMove\<close>, \<^verbatim>\<open>onEnd\<close> is invoked.
\<close>

theorem disabled_no_op:
  "disabled opts \<Longrightarrow>
   dispatchEvent opts layout h ty ev
     = \<lparr>hook_after = h, calls = [], defaultPrevented = False, thrown = None\<rparr>"
  by (simp add: dispatchEvent_def listening_def unchanged_def)

theorem disabled_no_op_witness:
  "disabled (options AxisBoth None True (Some quiet) (Some quiet) (Some quiet))
   \<and> dispatchEvent (options AxisBoth None True (Some quiet) (Some quiet) (Some quiet)) page
       dragged mouseup (MouseEvent (Some 1) 115 15)
     = \<lparr>hook_after = dragged, calls = [], defaultPrevented = False, thrown = None\<rparr>"
  using disabled_no_op
    [of "options AxisBoth None True (Some quiet) (Some quiet) (Some quiet)" page dragged
        mouseup "MouseEvent (Some 1) 115 15"]
  by (simp add: options_def)

subsection \<open>The target of a start event\<close>

text \<open>
  Claim C10: a pointer/touch-down starts a drag session only when the event's target is
  the attached element itself; a down event whose target is any other node (a child of the
  attached element is another node) leaves the state unchanged and invokes no callback.
\<close>

theorem start_needs_the_attached_target:
  "target ev \<noteq> elementRef h \<Longrightarrow> ty = mousedown \<or> ty = touchstart \<Longrightarrow>
   dispatchEvent opts layout h ty ev
     = \<lparr>hook_after = h, calls = [], defaultPrevented = False, thrown = None\<rparr>"
  by (auto simp: dispatchEvent_def handleMouseDown_def handleTouchStart_def unchanged_def)

theorem start_needs_the_attached_target_witness:
  "target (MouseEvent (Some 2) 15 15) \<noteq> elementRef (setElementRef (Some 1) initial)
   \<and> dispatchEvent (options AxisBoth None False (Some quiet) None None) page
       (setElementRef (Some 1) initial) mousedown (MouseEvent (Some 2) 15 15)
     = \<lparr>hook_after = setElementRef (Some 1) initial, calls = [], defaultPrevented = False,
        thrown = None\<rparr>"
  using start_needs_the_attached_target
    [of "MouseEvent (Some 2) 15 15" "setElementRef (Some 1) initial" mousedown
        "options AxisBoth None False (Some quiet) None None" page]
  by (simp add: setElementRef_def initial_def)

end
